theory Spec2Isabelle
  imports Main "HOL-Library.Sublist"
begin

section \<open>Strings\<close>

text \<open>
  JavaScript strings are sequences of code units. They are modelled as \<^typ>\<open>string\<close>,
  one \<^typ>\<open>char\<close> per code unit, for the code units \<open>0 .. 255\<close>.
\<close>

text \<open>The template literal \<^verbatim>\<open>`"${s}"`\<close>.\<close>

definition quoted :: "string \<Rightarrow> string" where
  \<open>quoted s = ''"'' @ s @ ''"''\<close>

text \<open>
  Truthiness of a value of type \<^verbatim>\<open>string | null\<close>: \<^verbatim>\<open>null\<close> and the empty
  string are falsy, every other string is truthy.
\<close>

definition truthy :: "string option \<Rightarrow> bool" where
  "truthy v = (case v of None \<Rightarrow> False | Some s \<Rightarrow> s \<noteq> [])"

section \<open>Build state and job state\<close>

text \<open>
  \<^verbatim>\<open>BuildState\<close> and \<^verbatim>\<open>JobState\<close> are data with accessors; a \<^verbatim>\<open>JobState\<close> is a
  view of its \<^verbatim>\<open>BuildState\<close> with the job's own fields added. The fields carry the
  names of the accessors the builder calls.
\<close>

record BuildState =
  getFilePath :: string
  getProjectPath :: string
  getTexFilePath :: string
  getEngine :: string
  getOutputFormat :: string
  getProducer :: string
  getOutputDirectory :: "string option"
  getJobNames :: "string option list"
  getEnableShellEscape :: bool
  getEnableSynctex :: bool
  getEnableExtendedBuildMode :: bool
  getCleanPatterns :: "string list"
  getMoveResultToSourceDirectory :: bool
  getShouldRebuild :: bool

record JobState = BuildState +
  getJobName :: "string option"
  getOutputFilePath :: "string option"

section \<open>The log sink\<close>

text \<open>
  The calls a builder makes on \<^verbatim>\<open>latex.log\<close>, in order, and the call of the base
  class's \<^verbatim>\<open>logStatusCode\<close>, whose body is not part of the builder.
\<close>

datatype log_call =
    LogError string
  | LogWarning string
  | LogInfo string
  | SuperLogStatusCode int string

section \<open>LatexmkBuilder\<close>

subsection \<open>logStatusCode\<close>

definition logStatusCode :: "int \<Rightarrow> string \<Rightarrow> log_call list" where
  "logStatusCode statusCode stderr =
     (if statusCode = 10 then
        [LogError ''latexmk: Bad command line arguments.'']
      else if statusCode = 11 then
        [LogError ''latexmk: File specified on command line not found or other file not found.'']
      else if statusCode = 12 then
        [LogError ''latexmk: Failure in some part of making files.'']
      else if statusCode = 13 then
        [LogError ''latexmk: error in initialization file.'']
      else if statusCode = 20 then
        [LogError ''latexmk: probable bug or retcode from called program.'']
      else
        [SuperLogStatusCode statusCode stderr])"

subsection \<open>constructPdfProducerArgs\<close>

definition constructPdfProducerArgs :: "JobState \<Rightarrow> string" where
  \<open>constructPdfProducerArgs jobState =
     (let producer = getProducer jobState in
      if producer = ''ps2pdf'' then ''-pdfps''
      else if producer = ''dvipdf'' then ''-pdfdvi -e "$dvipdf = 'dvipdf %O %S %D';"''
      else ''-pdfdvi -e "$dvipdf = '' @ [CHR 0x27] @ producer @ '' %O -o %D %S';"'')\<close>

subsection \<open>The patterns\<close>

text \<open>
  \<^verbatim>\<open>LATEX_PATTERN = /^latex|u?platex$/\<close>: the alternation binds weakest, so the pattern
  matches a string that starts with \<^verbatim>\<open>latex\<close>, or that ends with \<^verbatim>\<open>platex\<close> or
  \<^verbatim>\<open>uplatex\<close>.
\<close>

definition LATEX_PATTERN :: "string \<Rightarrow> bool" where
  "LATEX_PATTERN s =
     (prefix ''latex'' s \<or> suffix ''uplatex'' s \<or> suffix ''platex'' s)"

text \<open>\<^verbatim>\<open>PDF_ENGINE_PATTERN = /^(xelatex|lualatex)$/\<close>.\<close>

definition PDF_ENGINE_PATTERN :: "string \<Rightarrow> bool" where
  "PDF_ENGINE_PATTERN s = (s = ''xelatex'' \<or> s = ''lualatex'')"

definition LATEXMK_MINIMUM_VERSION :: string where
  "LATEXMK_MINIMUM_VERSION = ''4.37''"

text \<open>
  \<^verbatim>\<open>LATEXMK_VERSION_PATTERN = /Version\s+(\S+)/i\<close>. Among the code units
  \<open>0 .. 255\<close> the class \<^verbatim>\<open>\s\<close> holds tab, line feed, vertical tab, form feed,
  carriage return, space and the no-break space. Without the \<^verbatim>\<open>u\<close> flag a letter of
  the pattern matches itself in either case and nothing else.
\<close>

definition isSpace :: "char \<Rightarrow> bool" where
  "isSpace c = ((of_char c :: nat) \<in> {9, 10, 11, 12, 13, 32, 160})"

definition toUpperAscii :: "char \<Rightarrow> char" where
  "toUpperAscii c =
     (let n = (of_char c :: nat) in if 97 \<le> n \<and> n \<le> 122 then char_of (n - 32) else c)"

fun matchIgnoreCase :: "string \<Rightarrow> string \<Rightarrow> bool" where
  "matchIgnoreCase [] s = True"
| "matchIgnoreCase (p # ps) [] = False"
| "matchIgnoreCase (p # ps) (c # cs) =
     (toUpperAscii p = toUpperAscii c \<and> matchIgnoreCase ps cs)"

text \<open>
  An attempt at the start of \<open>s\<close>: \<^verbatim>\<open>\s+\<close> takes the whole run of white space, and
  giving some of it back never helps \<^verbatim>\<open>\S+\<close>; \<^verbatim>\<open>(\S+)\<close> then captures the whole run
  of other characters.
\<close>

definition matchVersionHere :: "string \<Rightarrow> string option" where
  "matchVersionHere s =
     (if matchIgnoreCase ''Version'' s then
        (let rest = drop 7 s;
             version = takeWhile (\<lambda>c. \<not> isSpace c) (dropWhile isSpace rest)
         in if takeWhile isSpace rest \<noteq> [] \<and> version \<noteq> [] then Some version else None)
      else None)"

text \<open>\<^verbatim>\<open>stdout.match(LATEXMK_VERSION_PATTERN)\<close>: the leftmost match; the result is \<^verbatim>\<open>match[1]\<close>.\<close>

fun LATEXMK_VERSION_PATTERN :: "string \<Rightarrow> string option" where
  "LATEXMK_VERSION_PATTERN [] = None"
| "LATEXMK_VERSION_PATTERN (c # cs) =
     (case matchVersionHere (c # cs) of
        Some version \<Rightarrow> Some version
      | None \<Rightarrow> LATEXMK_VERSION_PATTERN cs)"

text \<open>
  The operator \<^verbatim>\<open><\<close> on two strings: the lexicographic order of the code units, a
  proper prefix being smaller.
\<close>

fun stringLess :: "string \<Rightarrow> string \<Rightarrow> bool" where
  "stringLess [] [] = False"
| "stringLess [] (y # ys) = True"
| "stringLess (x # xs) [] = False"
| "stringLess (x # xs) (y # ys) =
     (if (of_char x :: nat) < of_char y then True
      else if (of_char y :: nat) < of_char x then False
      else stringLess xs ys)"

text \<open>
  A number in a template literal, for the integers an exit code can be: the decimal
  digits, with a sign.
\<close>

fun stringOfNat :: "nat \<Rightarrow> string" where
  "stringOfNat n =
     (if n < 10 then [''0123456789'' ! n]
      else stringOfNat (n div 10) @ [''0123456789'' ! (n mod 10)])"

definition stringOfInt :: "int \<Rightarrow> string" where
  "stringOfInt i = (if i < 0 then ''-'' @ stringOfNat (nat (- i)) else stringOfNat (nat i))"

subsection \<open>The builder's surroundings\<close>

text \<open>
  What the builder takes from outside its own file: the preference
  \<^verbatim>\<open>latex.useRelativePaths\<close>, the options that the base class builds for a child
  process (of which the builder reads \<^verbatim>\<open>cwd\<close>), \<^verbatim>\<open>path.relative\<close>, the resolved path
  of the bundled \<^verbatim>\<open>resources/latexmkrc\<close>, and the process executor, which gives the exit
  code and the collected output of the command it is handed.
\<close>

record ChildProcessOptions =
  cwd :: "string option"

record ProcessResult =
  statusCode :: int
  stdout :: string
  stderr :: string

record BuilderEnv =
  useRelativePaths :: bool
  constructChildProcessOptions :: "string \<Rightarrow> ChildProcessOptions"
  pathRelative :: "string \<Rightarrow> string \<Rightarrow> string"
  latexmkrcPath :: string
  executeChildProcess :: "string \<Rightarrow> ChildProcessOptions \<Rightarrow> ProcessResult"

datatype js_error = TypeError

definition executable :: string where
  "executable = ''latexmk''"

text \<open>\<^verbatim>\<open>args.join(" ")\<close>.\<close>

fun joinSpace :: "string list \<Rightarrow> string" where
  "joinSpace [] = []"
| "joinSpace [a] = a"
| "joinSpace (a # b # bs) = a @ '' '' @ joinSpace (b # bs)"

text \<open>\<^verbatim>\<open>s.slice(1, -1)\<close>: \<open>s\<close> without its first and its last code unit.\<close>

definition slice_1_m1 :: "string \<Rightarrow> string" where
  "slice_1_m1 s = butlast (tl s)"

subsection \<open>constructArgs\<close>

text \<open>
  Each \<^verbatim>\<open>args.push\<close> appends one element. The guards on the job name and on the output
  directory are truthiness tests. A template literal prints \<^verbatim>\<open>null\<close> as the word
  \<^verbatim>\<open>null\<close>; under the guards this is never reached.
\<close>

definition constructArgs :: "BuilderEnv \<Rightarrow> JobState \<Rightarrow> string list" where
  "constructArgs env jobState =
     (let args = [''-interaction=nonstopmode'', ''-f'', ''-cd'', ''-file-line-error''];
          args = (if getShouldRebuild jobState then args @ [''-g''] else args);
          args = (if truthy (getJobName jobState)
                  then args @ [''-jobname='' @ quoted (case getJobName jobState of
                                                         Some n \<Rightarrow> n | None \<Rightarrow> ''null'')]
                  else args);
          args = (if getEnableShellEscape jobState then args @ [''-shell-escape''] else args);
          args = (if getEnableSynctex jobState then args @ [''-synctex=1''] else args);
          args = (if getEnableExtendedBuildMode jobState
                  then args @ [''-r '' @ quoted (latexmkrcPath env)]
                  else args);
          args =
            (if LATEX_PATTERN (getEngine jobState) then
               (args @ [''-latex='' @ quoted (getEngine jobState)])
                 @ [if getOutputFormat jobState = ''pdf''
                    then constructPdfProducerArgs jobState
                    else ''-'' @ getOutputFormat jobState]
             else if getOutputFormat jobState = ''pdf'' \<and> PDF_ENGINE_PATTERN (getEngine jobState)
             then args @ [''-'' @ getEngine jobState]
             else
               (let args = (if getEngine jobState \<noteq> ''pdflatex''
                            then args @ [''-pdflatex='' @ quoted (getEngine jobState)]
                            else args)
                in args @ [''-'' @ getOutputFormat jobState]));
          args = (if truthy (getOutputDirectory jobState)
                  then args @ [''-outdir='' @ quoted (case getOutputDirectory jobState of
                                                        Some d \<Rightarrow> d | None \<Rightarrow> ''null'')]
                  else args)
      in args @ [quoted (getTexFilePath jobState)])"

subsection \<open>execLatexmk\<close>

text \<open>
  Reading \<^verbatim>\<open>args[args.length - 1]\<close> of an empty array gives \<^verbatim>\<open>undefined\<close>, and the
  call of \<^verbatim>\<open>slice\<close> on it throws a \<^verbatim>\<open>TypeError\<close>.
\<close>

definition execLatexmk :: "BuilderEnv \<Rightarrow> string \<Rightarrow> string list \<Rightarrow> js_error + ProcessResult" where
  "execLatexmk env directoryPath args =
     (let options = constructChildProcessOptions env directoryPath in
      if useRelativePaths env \<and> truthy (cwd options) then
        (if args = [] then Inl TypeError
         else
           (let absPath = slice_1_m1 (last args);
                relPath = pathRelative env (the (cwd options)) absPath;
                args = butlast args @ [quoted relPath];
                command = executable @ '' '' @ joinSpace args
            in Inr (executeChildProcess env command options)))
      else
        (let command = executable @ '' '' @ joinSpace args
         in Inr (executeChildProcess env command options)))"

subsection \<open>run\<close>

text \<open>
  The result of \<^verbatim>\<open>run\<close> is the value it returns with the calls it made on the log.
  The project path is passed under a non-null assertion, as a string. The exit code is
  an integer.
\<close>

definition run :: "BuilderEnv \<Rightarrow> JobState \<Rightarrow> js_error + (int \<times> log_call list)" where
  "run env jobState =
     (let args = constructArgs env jobState in
      case execLatexmk env (getProjectPath jobState) args of
        Inl e \<Rightarrow> Inl e
      | Inr result \<Rightarrow>
          Inr (statusCode result,
               if statusCode result \<noteq> 0
               then logStatusCode (statusCode result) (stderr result)
               else []))"

subsection \<open>checkRuntimeDependencies\<close>

definition checkRuntimeDependencies :: "BuilderEnv \<Rightarrow> js_error + log_call list" where
  \<open>checkRuntimeDependencies env =
     (case execLatexmk env ''.'' [''-v''] of
        Inl e \<Rightarrow> Inl e
      | Inr result \<Rightarrow>
          Inr (if statusCode result \<noteq> 0 then
                 [LogError (''latexmk check failed with code '' @ stringOfInt (statusCode result)
                            @ '' and response of "'' @ stderr result @ ''".'')]
               else
                 (case LATEXMK_VERSION_PATTERN (stdout result) of
                    None \<Rightarrow>
                      [LogWarning (''latexmk check succeeded but with an unknown version response of "''
                                   @ stdout result @ ''".'')]
                  | Some version \<Rightarrow>
                      if stringLess version LATEXMK_MINIMUM_VERSION then
                        [LogWarning (''latexmk check succeeded but with a version of '' @ version
                                     @ ''". '' @ ''Minimum version required is ''
                                     @ LATEXMK_MINIMUM_VERSION @ ''.'')]
                      else
                        [LogInfo (''latexmk check succeeded. Found version '' @ version @ ''.'')])))\<close>

subsection \<open>The three parts of the argument list\<close>

text \<open>
  \<^const>\<open>constructArgs\<close> pushes its arguments in three blocks: the flags before the
  engine is looked at, the flags chosen by engine and output format, and the output
  directory with the source file. They are written here as lists of their own, to
  state where in the result each flag stands.
\<close>

definition leadingArgs :: "BuilderEnv \<Rightarrow> JobState \<Rightarrow> string list" where
  "leadingArgs env jobState =
     [''-interaction=nonstopmode'', ''-f'', ''-cd'', ''-file-line-error'']
     @ (if getShouldRebuild jobState then [''-g''] else [])
     @ (case getJobName jobState of
          None \<Rightarrow> []
        | Some n \<Rightarrow> if n = [] then [] else [''-jobname='' @ quoted n])
     @ (if getEnableShellEscape jobState then [''-shell-escape''] else [])
     @ (if getEnableSynctex jobState then [''-synctex=1''] else [])
     @ (if getEnableExtendedBuildMode jobState then [''-r '' @ quoted (latexmkrcPath env)] else [])"

definition engineArgs :: "JobState \<Rightarrow> string list" where
  "engineArgs jobState =
     (if LATEX_PATTERN (getEngine jobState) then
        [''-latex='' @ quoted (getEngine jobState),
         if getOutputFormat jobState = ''pdf'' then constructPdfProducerArgs jobState
         else ''-'' @ getOutputFormat jobState]
      else if getOutputFormat jobState = ''pdf'' \<and> PDF_ENGINE_PATTERN (getEngine jobState) then
        [''-'' @ getEngine jobState]
      else if getEngine jobState \<noteq> ''pdflatex'' then
        [''-pdflatex='' @ quoted (getEngine jobState), ''-'' @ getOutputFormat jobState]
      else
        [''-'' @ getOutputFormat jobState])"

definition trailingArgs :: "JobState \<Rightarrow> string list" where
  "trailingArgs jobState =
     (case getOutputDirectory jobState of
        None \<Rightarrow> []
      | Some d \<Rightarrow> if d = [] then [] else [''-outdir='' @ quoted d])
     @ [quoted (getTexFilePath jobState)]"

section \<open>The package's entry point\<close>

text \<open>
  \<^verbatim>\<open>activate\<close> of \<^verbatim>\<open>main.ts\<close> registers the commands and a save handler for every
  editor. Each of them is the list of calls it makes. An argument left out of a call
  of \<^verbatim>\<open>latex.composer.build\<close> is \<open>None\<close>. Editors are compared by identity.
\<close>

datatype main_call =
    ComposerBuild bool "bool option"
  | ComposerClean
  | ComposerKill
  | ComposerSync
  | CheckRuntime
  | LogClear
  | LogHide
  | LogShow
  | LogSync
  | LogToggle

type_synonym editor = nat

definition commands :: "string \<Rightarrow> main_call list" where
  "commands name =
     (if name = ''latex:build'' then [ComposerBuild False None]
      else if name = ''latex:check-runtime'' then [CheckRuntime]
      else if name = ''latex:clean'' then [ComposerClean]
      else if name = ''latex:clear-log'' then [LogClear]
      else if name = ''latex:hide-log'' then [LogHide]
      else if name = ''latex:kill'' then [ComposerKill]
      else if name = ''latex:rebuild'' then [ComposerBuild True None]
      else if name = ''latex:show-log'' then [LogShow]
      else if name = ''latex:sync'' then [ComposerSync]
      else if name = ''latex:sync-log'' then [LogSync]
      else if name = ''latex:toggle-log'' then [LogToggle]
      else [])"

text \<open>
  The handler of \<^verbatim>\<open>editor.onDidSave\<close>, for the editor it was registered on, the
  editor \<^verbatim>\<open>atom.workspace.getActiveTextEditor()\<close> gives, if any, and the preference
  \<^verbatim>\<open>latex.buildOnSave\<close>.
\<close>

definition onDidSave :: "editor \<Rightarrow> editor option \<Rightarrow> bool \<Rightarrow> main_call list" where
  "onDidSave editor activeEditor buildOnSave =
     (if Some editor = activeEditor \<and> buildOnSave then [ComposerBuild False (Some False)]
      else [])"

section \<open>Composer\<close>

text \<open>
  Modelled from the spec: \<^verbatim>\<open>Composer.build\<close> of \<^verbatim>\<open>lib/composer\<close>, which is not
  among the sources. Its signature is \<^verbatim>\<open>build(shouldRebuild, shouldOpenResult=true)\<close>, and
  a job that ran with success has its output path resolved and the opener invoked on
  it, unless \<^verbatim>\<open>shouldOpenResult\<close> is false. \<^term>\<open>outputs\<close> are the resolved output
  paths of the jobs that ran with success, in order.
\<close>

definition shouldOpenResult :: "bool option \<Rightarrow> bool" where
  "shouldOpenResult argument = (case argument of None \<Rightarrow> True | Some b \<Rightarrow> b)"

definition openerCalls :: "main_call \<Rightarrow> string list \<Rightarrow> string list" where
  "openerCalls call outputs =
     (case call of
        ComposerBuild shouldRebuild argument \<Rightarrow>
          if shouldOpenResult argument then outputs else []
      | _ \<Rightarrow> [])"

text \<open>
  Modelled from the spec: \<^verbatim>\<open>Composer.initializeBuildStateFromProperties\<close>, which is
  not among the sources; its tests in \<^verbatim>\<open>spec/composer-spec.js\<close> are. The properties
  are the keys of the settings file that the tests set, each absent or with a value.
  An option with aliases takes the value of the first alias that is present and not
  empty; the singular \<^verbatim>\<open>jobname\<close> stands for the list of that one name. An option
  that no property sets keeps the value the state has.
\<close>

record Properties =
  cleanPatterns :: "string list option"
  enableExtendedBuildMode :: "bool option"
  enableShellEscape :: "bool option"
  enableSynctex :: "bool option"
  jobNames :: "string list option"
  jobnames :: "string list option"
  jobname :: "string option"
  customEngine :: "string option"
  engine :: "string option"
  program :: "string option"
  moveResultToSourceDirectory :: "bool option"
  outputFormat :: "string option"
  format :: "string option"
  outputDirectory :: "string option"
  output_directory :: "string option"
  producer :: "string option"

definition nonEmpty :: "'a list option \<Rightarrow> bool" where
  "nonEmpty v = (case v of None \<Rightarrow> False | Some x \<Rightarrow> x \<noteq> [])"

fun firstNonEmpty :: "'a list option list \<Rightarrow> 'a list option" where
  "firstNonEmpty [] = None"
| "firstNonEmpty (None # aliases) = firstNonEmpty aliases"
| "firstNonEmpty (Some v # aliases) = (if v = [] then firstNonEmpty aliases else Some v)"

definition initializeBuildStateFromProperties :: "BuildState \<Rightarrow> Properties \<Rightarrow> BuildState" where
  "initializeBuildStateFromProperties state properties =
     state
       \<lparr> getCleanPatterns :=
           (case cleanPatterns properties of
              Some v \<Rightarrow> v | None \<Rightarrow> getCleanPatterns state),
         getEnableExtendedBuildMode :=
           (case enableExtendedBuildMode properties of
              Some v \<Rightarrow> v | None \<Rightarrow> getEnableExtendedBuildMode state),
         getEnableShellEscape :=
           (case enableShellEscape properties of
              Some v \<Rightarrow> v | None \<Rightarrow> getEnableShellEscape state),
         getEnableSynctex :=
           (case enableSynctex properties of
              Some v \<Rightarrow> v | None \<Rightarrow> getEnableSynctex state),
         getJobNames :=
           (case firstNonEmpty
                   [jobNames properties, jobnames properties,
                    map_option (\<lambda>n. [n]) (firstNonEmpty [jobname properties])] of
              Some v \<Rightarrow> map Some v | None \<Rightarrow> getJobNames state),
         getEngine :=
           (case firstNonEmpty
                   [customEngine properties, engine properties, program properties] of
              Some v \<Rightarrow> v | None \<Rightarrow> getEngine state),
         getMoveResultToSourceDirectory :=
           (case moveResultToSourceDirectory properties of
              Some v \<Rightarrow> v | None \<Rightarrow> getMoveResultToSourceDirectory state),
         getOutputFormat :=
           (case firstNonEmpty [outputFormat properties, format properties] of
              Some v \<Rightarrow> v | None \<Rightarrow> getOutputFormat state),
         getOutputDirectory :=
           (case firstNonEmpty [outputDirectory properties, output_directory properties] of
              Some v \<Rightarrow> Some v | None \<Rightarrow> getOutputDirectory state),
         getProducer :=
           (case firstNonEmpty [producer properties] of
              Some v \<Rightarrow> v | None \<Rightarrow> getProducer state) \<rparr>"

text \<open>
  Modelled from the spec: \<^verbatim>\<open>Composer.shouldMoveResult\<close> and
  \<^verbatim>\<open>Composer.resolveOutputFilePath\<close>, which are not among the sources; their tests in
  \<^verbatim>\<open>spec/composer-spec.js\<close> are. If the job state has an output file path, it is
  returned. Otherwise the builder's \<^verbatim>\<open>parseLogAndFdbFiles\<close> is called on the job
  state; if the job state still has no path the result is \<^verbatim>\<open>null\<close>; if the result is
  to be moved to the source directory and an output directory is in use, the path is
  rewritten to its base name joined with the directory of the source file. The
  functions of \<^verbatim>\<open>path\<close> and the builder's parser are taken as they come. The result is
  the returned path, the job state afterwards, and the number of calls of the parser.
\<close>

record PathModule =
  pathBasename :: "string \<Rightarrow> string"
  pathDirname :: "string \<Rightarrow> string"
  pathJoin :: "string \<Rightarrow> string \<Rightarrow> string"

definition shouldMoveResult :: "JobState \<Rightarrow> bool" where
  "shouldMoveResult jobState =
     (getMoveResultToSourceDirectory jobState \<and> truthy (getOutputDirectory jobState))"

definition resolveOutputFilePath ::
  "PathModule \<Rightarrow> (JobState \<Rightarrow> JobState) \<Rightarrow> JobState \<Rightarrow> string option \<times> JobState \<times> nat" where
  "resolveOutputFilePath path parseLogAndFdbFiles jobState =
     (case getOutputFilePath jobState of
        Some outputFilePath \<Rightarrow> (Some outputFilePath, jobState, 0)
      | None \<Rightarrow>
          (let jobState = parseLogAndFdbFiles jobState in
           case getOutputFilePath jobState of
             None \<Rightarrow> (None, jobState, 1)
           | Some outputFilePath \<Rightarrow>
               if shouldMoveResult jobState then
                 (let outputFilePath =
                        pathJoin path (pathDirname path (getFilePath jobState))
                          (pathBasename path outputFilePath)
                  in (Some outputFilePath,
                      jobState\<lparr>getOutputFilePath := Some outputFilePath\<rparr>, 1))
               else (Some outputFilePath, jobState, 1)))"

section \<open>Concrete inputs\<close>

text \<open>
  A job state for \<^verbatim>\<open>/angle/gronk.tex\<close> with the default engine, and surroundings in
  which relative paths are preferred, the working directory is the project's, and the
  process fails with exit code 12.
\<close>

definition gronkJob :: JobState where
  "gronkJob =
     \<lparr> getFilePath = ''/angle/gronk.tex'', getProjectPath = ''/angle'',
       getTexFilePath = ''/angle/gronk.tex'', getEngine = ''pdflatex'',
       getOutputFormat = ''pdf'', getProducer = ''dvipdfmx'', getOutputDirectory = None,
       getJobNames = [None], getEnableShellEscape = False, getEnableSynctex = True,
       getEnableExtendedBuildMode = False, getCleanPatterns = [],
       getMoveResultToSourceDirectory = False, getShouldRebuild = False,
       getJobName = None, getOutputFilePath = None \<rparr>"

definition failingEnv :: BuilderEnv where
  "failingEnv =
     \<lparr> useRelativePaths = True,
       constructChildProcessOptions = (\<lambda>directoryPath. \<lparr> cwd = Some directoryPath \<rparr>),
       pathRelative = (\<lambda>from to. drop (length from + 1) to),
       latexmkrcPath = ''/pkg/resources/latexmkrc'',
       executeChildProcess =
         (\<lambda>command options. \<lparr> statusCode = 12, stdout = command, stderr = ''no such file'' \<rparr>) \<rparr>"

text \<open>Surroundings in which the version probe prints version 4.100.\<close>

definition probeEnv :: BuilderEnv where
  "probeEnv =
     \<lparr> useRelativePaths = False,
       constructChildProcessOptions = (\<lambda>directoryPath. \<lparr> cwd = Some directoryPath \<rparr>),
       pathRelative = (\<lambda>from to. to),
       latexmkrcPath = ''/pkg/resources/latexmkrc'',
       executeChildProcess =
         (\<lambda>command options.
            \<lparr> statusCode = 0, stdout = ''Latexmk, John Collins. Version 4.100'', stderr = [] \<rparr>) \<rparr>"

text \<open>
  The build state of \<^verbatim>\<open>gronk.tex\<close> and the properties of the first test of
  \<^verbatim>\<open>initializeBuildStateFromProperties\<close> in \<^verbatim>\<open>spec/composer-spec.js\<close>.
\<close>

definition gronkState :: BuildState where
  "gronkState =
     \<lparr> getFilePath = ''gronk.tex'', getProjectPath = ''.'', getTexFilePath = ''gronk.tex'',
       getEngine = ''pdflatex'', getOutputFormat = ''pdf'', getProducer = ''dvipdfmx'',
       getOutputDirectory = None, getJobNames = [None], getEnableShellEscape = False,
       getEnableSynctex = False, getEnableExtendedBuildMode = False, getCleanPatterns = [],
       getMoveResultToSourceDirectory = False, getShouldRebuild = False \<rparr>"

definition firstLevelProperties :: Properties where
  "firstLevelProperties =
     \<lparr> cleanPatterns = Some [''primary''], enableExtendedBuildMode = Some True,
       enableShellEscape = Some True, enableSynctex = Some True,
       jobNames = Some [''primary''], jobnames = Some [''secondary''],
       jobname = Some ''secondary'', customEngine = Some ''primary'',
       engine = Some ''secondary'', program = Some ''secondary'',
       moveResultToSourceDirectory = Some True, outputFormat = Some ''primary'',
       format = Some ''secondary'', outputDirectory = Some ''primary'',
       output_directory = Some ''secondary'', producer = Some ''primary'' \<rparr>"

text \<open>
  The job state and the parser of the last test of \<^verbatim>\<open>resolveOutputFilePath\<close> in
  \<^verbatim>\<open>spec/composer-spec.js\<close>, with the functions of \<^verbatim>\<open>path\<close> on paths without a
  trailing separator whose directory is \<^verbatim>\<open>.\<close> or a name.
\<close>

definition fooJob :: JobState where
  "fooJob =
     \<lparr> getFilePath = ''foo.tex'', getProjectPath = ''.'', getTexFilePath = ''foo.tex'',
       getEngine = ''pdflatex'', getOutputFormat = ''pdf'', getProducer = ''dvipdfmx'',
       getOutputDirectory = Some ''bar'', getJobNames = [None], getEnableShellEscape = False,
       getEnableSynctex = False, getEnableExtendedBuildMode = False, getCleanPatterns = [],
       getMoveResultToSourceDirectory = True, getShouldRebuild = False,
       getJobName = None, getOutputFilePath = None \<rparr>"

definition fooParser :: "JobState \<Rightarrow> JobState" where
  "fooParser jobState = jobState\<lparr>getOutputFilePath := Some ''bar/foo.pdf''\<rparr>"

definition simplePath :: PathModule where
  "simplePath =
     \<lparr> pathBasename = (\<lambda>p. rev (takeWhile (\<lambda>c. c \<noteq> CHR ''/'') (rev p))),
       pathDirname =
         (\<lambda>p. if CHR ''/'' \<in> set p
              then rev (tl (dropWhile (\<lambda>c. c \<noteq> CHR ''/'') (rev p)))
              else ''.''),
       pathJoin = (\<lambda>d b. if d = ''.'' then b else d @ ''/'' @ b) \<rparr>"

section \<open>Facts about the argument list\<close>

lemma push_if: "(if c then args @ [a] else args) = args @ (if c then [a] else [])"
  by simp

lemma push_engine:
  "(if l then (args @ [a]) @ [b]
    else if p then args @ [c]
    else (let args = (if q then args @ [d] else args) in args @ [f]))
   = args @ (if l then [a, b] else if p then [c] else if q then [d, f] else [f])"
  by simp

lemma push_option:
  "(if truthy v then [pre @ quoted (case v of Some n \<Rightarrow> n | None \<Rightarrow> ''null'')] else [])
   = (case v of None \<Rightarrow> [] | Some n \<Rightarrow> if n = [] then [] else [pre @ quoted n])"
  by (cases v) (simp_all add: truthy_def)

lemma constructArgs_split:
  "constructArgs env jobState = leadingArgs env jobState @ engineArgs jobState @ trailingArgs jobState"
  unfolding constructArgs_def
  unfolding push_engine
  unfolding push_if
  unfolding push_option
  by (simp add: Let_def leadingArgs_def engineArgs_def trailingArgs_def split del: if_split)

lemma slice_quoted: "slice_1_m1 (quoted s) = s"
  by (simp add: slice_1_m1_def quoted_def butlast_append)

lemma LATEX_PATTERN_pdflatex: "\<not> LATEX_PATTERN ''pdflatex''"
  by (simp add: LATEX_PATTERN_def suffix_to_prefix)

lemma LATEX_PATTERN_xelatex: "\<not> LATEX_PATTERN ''xelatex''"
  by (simp add: LATEX_PATTERN_def suffix_to_prefix)

lemma LATEX_PATTERN_platex: "LATEX_PATTERN ''platex''"
  by (simp add: LATEX_PATTERN_def suffix_to_prefix)

lemma constructArgs_nonempty: "constructArgs env jobState \<noteq> []"
  by (simp add: constructArgs_split leadingArgs_def)

lemma execLatexmk_nonempty:
  "args \<noteq> [] \<Longrightarrow> \<exists>result. execLatexmk env directoryPath args = Inr result"
  by (simp add: execLatexmk_def Let_def)

lemma no_engine_flag_leading:
  "a \<in> set (leadingArgs env jobState) \<Longrightarrow>
     \<not> prefix ''-latex='' a \<and> \<not> prefix ''-pdflatex='' a \<and> a \<noteq> ''-xelatex'' \<and> a \<noteq> ''-lualatex''"
  by (auto simp: leadingArgs_def quoted_def split: option.splits if_splits)

lemma no_engine_flag_trailing:
  "a \<in> set (trailingArgs jobState) \<Longrightarrow>
     \<not> prefix ''-latex='' a \<and> \<not> prefix ''-pdflatex='' a \<and> a \<noteq> ''-xelatex'' \<and> a \<noteq> ''-lualatex''"
  by (auto simp: trailingArgs_def quoted_def split: option.splits if_splits)

lemma gronk_args: "constructArgs failingEnv gronkJob =
    [''-interaction=nonstopmode'', ''-f'', ''-cd'', ''-file-line-error'', ''-synctex=1'',
        ''-pdf'', quoted ''/angle/gronk.tex'']"
  by (simp add: constructArgs_split leadingArgs_def trailingArgs_def engineArgs_def gronkJob_def
      LATEX_PATTERN_pdflatex PDF_ENGINE_PATTERN_def)

section \<open>Alias precedence of the settings file\<close>

lemma getEngine_initialize:
  "getEngine (initializeBuildStateFromProperties s p) =
     (case firstNonEmpty [customEngine p, engine p, program p] of
        Some v \<Rightarrow> v | None \<Rightarrow> getEngine s)"
  by (simp add: initializeBuildStateFromProperties_def)

lemma getJobNames_initialize:
  "getJobNames (initializeBuildStateFromProperties s p) =
     (case firstNonEmpty [jobNames p, jobnames p,
                          map_option (\<lambda>n. [n]) (firstNonEmpty [jobname p])] of
        Some v \<Rightarrow> map Some v | None \<Rightarrow> getJobNames s)"
  by (simp add: initializeBuildStateFromProperties_def)

lemma getOutputFormat_initialize:
  "getOutputFormat (initializeBuildStateFromProperties s p) =
     (case firstNonEmpty [outputFormat p, format p] of
        Some v \<Rightarrow> v | None \<Rightarrow> getOutputFormat s)"
  by (simp add: initializeBuildStateFromProperties_def)

lemma getOutputDirectory_initialize:
  "getOutputDirectory (initializeBuildStateFromProperties s p) =
     (case firstNonEmpty [outputDirectory p, output_directory p] of
        Some v \<Rightarrow> Some v | None \<Rightarrow> getOutputDirectory s)"
  by (simp add: initializeBuildStateFromProperties_def)

text \<open>
  C1. For every build state and every properties, each option with aliases takes the
  value of the first alias that is present and not empty: the engine is that of
  \<^verbatim>\<open>customEngine\<close>, else of \<^verbatim>\<open>engine\<close>, else of \<^verbatim>\<open>program\<close>; the job names are
  those of \<^verbatim>\<open>jobNames\<close>, else of \<^verbatim>\<open>jobnames\<close>, else the one of \<^verbatim>\<open>jobname\<close>; the output
  format is that of \<^verbatim>\<open>outputFormat\<close>, else of \<^verbatim>\<open>format\<close>; the output directory is
  that of \<^verbatim>\<open>outputDirectory\<close>, else of \<^verbatim>\<open>output_directory\<close>; and an option none of
  whose aliases is set keeps its value.
\<close>

theorem initializeBuildStateFromProperties_alias_precedence:
  "(nonEmpty (customEngine p) \<longrightarrow>
      Some (getEngine (initializeBuildStateFromProperties s p)) = customEngine p)
   \<and> (\<not> nonEmpty (customEngine p) \<and> nonEmpty (engine p) \<longrightarrow>
      Some (getEngine (initializeBuildStateFromProperties s p)) = engine p)
   \<and> (\<not> nonEmpty (customEngine p) \<and> \<not> nonEmpty (engine p) \<and> nonEmpty (program p) \<longrightarrow>
      Some (getEngine (initializeBuildStateFromProperties s p)) = program p)
   \<and> (\<not> nonEmpty (customEngine p) \<and> \<not> nonEmpty (engine p) \<and> \<not> nonEmpty (program p) \<longrightarrow>
      getEngine (initializeBuildStateFromProperties s p) = getEngine s)
   \<and> (nonEmpty (jobNames p) \<longrightarrow>
      Some (getJobNames (initializeBuildStateFromProperties s p)) =
        map_option (map Some) (jobNames p))
   \<and> (\<not> nonEmpty (jobNames p) \<and> nonEmpty (jobnames p) \<longrightarrow>
      Some (getJobNames (initializeBuildStateFromProperties s p)) =
        map_option (map Some) (jobnames p))
   \<and> (\<not> nonEmpty (jobNames p) \<and> \<not> nonEmpty (jobnames p) \<and> nonEmpty (jobname p) \<longrightarrow>
      Some (getJobNames (initializeBuildStateFromProperties s p)) =
        map_option (\<lambda>n. [Some n]) (jobname p))
   \<and> (\<not> nonEmpty (jobNames p) \<and> \<not> nonEmpty (jobnames p) \<and> \<not> nonEmpty (jobname p) \<longrightarrow>
      getJobNames (initializeBuildStateFromProperties s p) = getJobNames s)
   \<and> (nonEmpty (outputFormat p) \<longrightarrow>
      Some (getOutputFormat (initializeBuildStateFromProperties s p)) = outputFormat p)
   \<and> (\<not> nonEmpty (outputFormat p) \<and> nonEmpty (format p) \<longrightarrow>
      Some (getOutputFormat (initializeBuildStateFromProperties s p)) = format p)
   \<and> (\<not> nonEmpty (outputFormat p) \<and> \<not> nonEmpty (format p) \<longrightarrow>
      getOutputFormat (initializeBuildStateFromProperties s p) = getOutputFormat s)
   \<and> (nonEmpty (outputDirectory p) \<longrightarrow>
      getOutputDirectory (initializeBuildStateFromProperties s p) = outputDirectory p)
   \<and> (\<not> nonEmpty (outputDirectory p) \<and> nonEmpty (output_directory p) \<longrightarrow>
      getOutputDirectory (initializeBuildStateFromProperties s p) = output_directory p)
   \<and> (\<not> nonEmpty (outputDirectory p) \<and> \<not> nonEmpty (output_directory p) \<longrightarrow>
      getOutputDirectory (initializeBuildStateFromProperties s p) = getOutputDirectory s)"
proof -
  have e: "(nonEmpty (customEngine p) \<longrightarrow>
      Some (getEngine (initializeBuildStateFromProperties s p)) = customEngine p)
   \<and> (\<not> nonEmpty (customEngine p) \<and> nonEmpty (engine p) \<longrightarrow>
      Some (getEngine (initializeBuildStateFromProperties s p)) = engine p)
   \<and> (\<not> nonEmpty (customEngine p) \<and> \<not> nonEmpty (engine p) \<and> nonEmpty (program p) \<longrightarrow>
      Some (getEngine (initializeBuildStateFromProperties s p)) = program p)
   \<and> (\<not> nonEmpty (customEngine p) \<and> \<not> nonEmpty (engine p) \<and> \<not> nonEmpty (program p) \<longrightarrow>
      getEngine (initializeBuildStateFromProperties s p) = getEngine s)"
    unfolding getEngine_initialize
    by (cases "customEngine p"; cases "engine p"; cases "program p") (simp_all add: nonEmpty_def)
  have j: "(nonEmpty (jobNames p) \<longrightarrow>
      Some (getJobNames (initializeBuildStateFromProperties s p)) =
        map_option (map Some) (jobNames p))
   \<and> (\<not> nonEmpty (jobNames p) \<and> nonEmpty (jobnames p) \<longrightarrow>
      Some (getJobNames (initializeBuildStateFromProperties s p)) =
        map_option (map Some) (jobnames p))
   \<and> (\<not> nonEmpty (jobNames p) \<and> \<not> nonEmpty (jobnames p) \<and> nonEmpty (jobname p) \<longrightarrow>
      Some (getJobNames (initializeBuildStateFromProperties s p)) =
        map_option (\<lambda>n. [Some n]) (jobname p))
   \<and> (\<not> nonEmpty (jobNames p) \<and> \<not> nonEmpty (jobnames p) \<and> \<not> nonEmpty (jobname p) \<longrightarrow>
      getJobNames (initializeBuildStateFromProperties s p) = getJobNames s)"
    unfolding getJobNames_initialize
    by (cases "jobNames p"; cases "jobnames p"; cases "jobname p") (simp_all add: nonEmpty_def)
  have f: "(nonEmpty (outputFormat p) \<longrightarrow>
      Some (getOutputFormat (initializeBuildStateFromProperties s p)) = outputFormat p)
   \<and> (\<not> nonEmpty (outputFormat p) \<and> nonEmpty (format p) \<longrightarrow>
      Some (getOutputFormat (initializeBuildStateFromProperties s p)) = format p)
   \<and> (\<not> nonEmpty (outputFormat p) \<and> \<not> nonEmpty (format p) \<longrightarrow>
      getOutputFormat (initializeBuildStateFromProperties s p) = getOutputFormat s)"
    unfolding getOutputFormat_initialize
    by (cases "outputFormat p"; cases "format p") (simp_all add: nonEmpty_def)
  have d: "(nonEmpty (outputDirectory p) \<longrightarrow>
      getOutputDirectory (initializeBuildStateFromProperties s p) = outputDirectory p)
   \<and> (\<not> nonEmpty (outputDirectory p) \<and> nonEmpty (output_directory p) \<longrightarrow>
      getOutputDirectory (initializeBuildStateFromProperties s p) = output_directory p)
   \<and> (\<not> nonEmpty (outputDirectory p) \<and> \<not> nonEmpty (output_directory p) \<longrightarrow>
      getOutputDirectory (initializeBuildStateFromProperties s p) = getOutputDirectory s)"
    unfolding getOutputDirectory_initialize
    by (cases "outputDirectory p"; cases "output_directory p") (simp_all add: nonEmpty_def)
  from e j f d show ?thesis
    by blast
qed

theorem initializeBuildStateFromProperties_alias_precedence_witness:
  "nonEmpty (customEngine firstLevelProperties)
   \<and> nonEmpty (engine firstLevelProperties)
   \<and> nonEmpty (program firstLevelProperties)
   \<and> getEngine (initializeBuildStateFromProperties gronkState firstLevelProperties) = ''primary''
   \<and> getJobNames (initializeBuildStateFromProperties gronkState firstLevelProperties) =
       [Some ''primary'']
   \<and> getOutputFormat (initializeBuildStateFromProperties gronkState firstLevelProperties) =
       ''primary''
   \<and> getOutputDirectory (initializeBuildStateFromProperties gronkState firstLevelProperties) =
       Some ''primary''"
proof -
  have h: "nonEmpty (customEngine firstLevelProperties)
      \<and> nonEmpty (engine firstLevelProperties) \<and> nonEmpty (program firstLevelProperties)
      \<and> nonEmpty (jobNames firstLevelProperties) \<and> nonEmpty (outputFormat firstLevelProperties)
      \<and> nonEmpty (outputDirectory firstLevelProperties)"
    by (simp add: nonEmpty_def firstLevelProperties_def)
  have v: "customEngine firstLevelProperties = Some ''primary''
      \<and> jobNames firstLevelProperties = Some [''primary'']
      \<and> outputFormat firstLevelProperties = Some ''primary''
      \<and> outputDirectory firstLevelProperties = Some ''primary''"
    by (simp add: firstLevelProperties_def)
  from h v
    initializeBuildStateFromProperties_alias_precedence [of firstLevelProperties gronkState]
  show ?thesis
    by simp
qed

section \<open>Engine flags\<close>

text \<open>
  C2. For a job state with engine \<^verbatim>\<open>pdflatex\<close> and output format \<^verbatim>\<open>pdf\<close> the
  argument list holds \<^verbatim>\<open>-pdf\<close> between the leading and the trailing arguments and no
  engine flag: no argument starts with \<^verbatim>\<open>-latex=\<close> or \<^verbatim>\<open>-pdflatex=\<close> or is
  \<^verbatim>\<open>-xelatex\<close> or \<^verbatim>\<open>-lualatex\<close>. With engine \<^verbatim>\<open>xelatex\<close> and output format
  \<^verbatim>\<open>pdf\<close> it holds the short flag \<^verbatim>\<open>-xelatex\<close> there. With engine \<^verbatim>\<open>platex\<close> and
  output format \<^verbatim>\<open>dvi\<close> it holds \<^verbatim>\<open>-latex="platex"\<close> followed by \<^verbatim>\<open>-dvi\<close> there.
\<close>

theorem constructArgs_engine_branches:
  "(getEngine jobState = ''pdflatex'' \<and> getOutputFormat jobState = ''pdf'' \<longrightarrow>
      constructArgs env jobState = leadingArgs env jobState @ [''-pdf''] @ trailingArgs jobState
      \<and> (\<forall>a \<in> set (constructArgs env jobState).
            \<not> prefix ''-latex='' a \<and> \<not> prefix ''-pdflatex='' a
            \<and> a \<noteq> ''-xelatex'' \<and> a \<noteq> ''-lualatex''))
   \<and> (getEngine jobState = ''xelatex'' \<and> getOutputFormat jobState = ''pdf'' \<longrightarrow>
      constructArgs env jobState = leadingArgs env jobState @ [''-xelatex''] @ trailingArgs jobState)
   \<and> (getEngine jobState = ''platex'' \<and> getOutputFormat jobState = ''dvi'' \<longrightarrow>
      constructArgs env jobState =
        leadingArgs env jobState @ [''-latex='' @ quoted ''platex'', ''-dvi''] @ trailingArgs jobState)"
proof (intro conjI impI)
  assume "getEngine jobState = ''pdflatex'' \<and> getOutputFormat jobState = ''pdf''"
  then have "engineArgs jobState = [''-pdf'']"
    by (simp add: engineArgs_def LATEX_PATTERN_pdflatex PDF_ENGINE_PATTERN_def)
  then show eq:
    "constructArgs env jobState = leadingArgs env jobState @ [''-pdf''] @ trailingArgs jobState"
    by (simp add: constructArgs_split)
  show "\<forall>a \<in> set (constructArgs env jobState).
          \<not> prefix ''-latex='' a \<and> \<not> prefix ''-pdflatex='' a
          \<and> a \<noteq> ''-xelatex'' \<and> a \<noteq> ''-lualatex''"
  proof
    fix a
    assume "a \<in> set (constructArgs env jobState)"
    then consider "a \<in> set (leadingArgs env jobState)" | "a = ''-pdf''"
      | "a \<in> set (trailingArgs jobState)"
      unfolding eq by auto
    then show "\<not> prefix ''-latex='' a \<and> \<not> prefix ''-pdflatex='' a
          \<and> a \<noteq> ''-xelatex'' \<and> a \<noteq> ''-lualatex''"
    proof cases
      case 1
      then show ?thesis by (rule no_engine_flag_leading)
    next
      case 2
      then show ?thesis by simp
    next
      case 3
      then show ?thesis by (rule no_engine_flag_trailing)
    qed
  qed
next
  assume "getEngine jobState = ''xelatex'' \<and> getOutputFormat jobState = ''pdf''"
  then have "engineArgs jobState = [''-xelatex'']"
    by (simp add: engineArgs_def LATEX_PATTERN_xelatex PDF_ENGINE_PATTERN_def)
  then show "constructArgs env jobState = leadingArgs env jobState @ [''-xelatex''] @ trailingArgs jobState"
    by (simp add: constructArgs_split)
next
  assume "getEngine jobState = ''platex'' \<and> getOutputFormat jobState = ''dvi''"
  then have "engineArgs jobState = [''-latex='' @ quoted ''platex'', ''-dvi'']"
    by (simp add: engineArgs_def LATEX_PATTERN_platex)
  then show "constructArgs env jobState =
        leadingArgs env jobState @ [''-latex='' @ quoted ''platex'', ''-dvi''] @ trailingArgs jobState"
    by (simp add: constructArgs_split)
qed

theorem constructArgs_engine_branches_witness:
  "getEngine gronkJob = ''pdflatex'' \<and> getOutputFormat gronkJob = ''pdf''
   \<and> constructArgs failingEnv gronkJob =
       [''-interaction=nonstopmode'', ''-f'', ''-cd'', ''-file-line-error'', ''-synctex=1'',
        ''-pdf'', quoted ''/angle/gronk.tex'']
   \<and> constructArgs failingEnv (gronkJob\<lparr>getEngine := ''xelatex''\<rparr>) =
       [''-interaction=nonstopmode'', ''-f'', ''-cd'', ''-file-line-error'', ''-synctex=1'',
        ''-xelatex'', quoted ''/angle/gronk.tex'']
   \<and> constructArgs failingEnv (gronkJob\<lparr>getEngine := ''platex'', getOutputFormat := ''dvi''\<rparr>) =
       [''-interaction=nonstopmode'', ''-f'', ''-cd'', ''-file-line-error'', ''-synctex=1'',
        ''-latex='' @ quoted ''platex'', ''-dvi'', quoted ''/angle/gronk.tex'']"
proof -
  have h: "getEngine gronkJob = ''pdflatex'' \<and> getOutputFormat gronkJob = ''pdf''"
    by (simp add: gronkJob_def)
  with constructArgs_engine_branches [of gronkJob failingEnv]
  have a: "constructArgs failingEnv gronkJob =
          leadingArgs failingEnv gronkJob @ [''-pdf''] @ trailingArgs gronkJob"
    by blast
  have "getEngine (gronkJob\<lparr>getEngine := ''xelatex''\<rparr>) = ''xelatex''
      \<and> getOutputFormat (gronkJob\<lparr>getEngine := ''xelatex''\<rparr>) = ''pdf''"
    by (simp add: gronkJob_def)
  with constructArgs_engine_branches [of "gronkJob\<lparr>getEngine := ''xelatex''\<rparr>" failingEnv]
  have b: "constructArgs failingEnv (gronkJob\<lparr>getEngine := ''xelatex''\<rparr>) =
          leadingArgs failingEnv (gronkJob\<lparr>getEngine := ''xelatex''\<rparr>) @ [''-xelatex'']
            @ trailingArgs (gronkJob\<lparr>getEngine := ''xelatex''\<rparr>)"
    by blast
  have "getEngine (gronkJob\<lparr>getEngine := ''platex'', getOutputFormat := ''dvi''\<rparr>) = ''platex''
      \<and> getOutputFormat (gronkJob\<lparr>getEngine := ''platex'', getOutputFormat := ''dvi''\<rparr>) = ''dvi''"
    by simp
  with constructArgs_engine_branches
         [of "gronkJob\<lparr>getEngine := ''platex'', getOutputFormat := ''dvi''\<rparr>" failingEnv]
  have c: "constructArgs failingEnv (gronkJob\<lparr>getEngine := ''platex'', getOutputFormat := ''dvi''\<rparr>) =
          leadingArgs failingEnv (gronkJob\<lparr>getEngine := ''platex'', getOutputFormat := ''dvi''\<rparr>)
            @ [''-latex='' @ quoted ''platex'', ''-dvi'']
            @ trailingArgs (gronkJob\<lparr>getEngine := ''platex'', getOutputFormat := ''dvi''\<rparr>)"
    by blast
  show ?thesis
    unfolding a b c using h
    by (simp add: leadingArgs_def trailingArgs_def gronkJob_def)
qed

section \<open>Layout of the argument list\<close>

text \<open>
  C3, amended. For every job state the argument list begins with the four flags
  \<^verbatim>\<open>-interaction=nonstopmode\<close>, \<^verbatim>\<open>-f\<close>, \<^verbatim>\<open>-cd\<close>, \<^verbatim>\<open>-file-line-error\<close>; then come
  \<^verbatim>\<open>-g\<close> exactly when a rebuild is asked for, the quoted \<^verbatim>\<open>-jobname\<close> flag exactly
  when the job name is neither null nor the empty string, \<^verbatim>\<open>-shell-escape\<close> exactly
  when shell escape is enabled, \<^verbatim>\<open>-synctex=1\<close> exactly when SyncTeX is enabled, and the
  \<^verbatim>\<open>-r\<close> flag with the quoted path of the bundled \<^verbatim>\<open>latexmkrc\<close> exactly when the
  extended build mode is enabled; then the flags of the engine; then the quoted
  \<^verbatim>\<open>-outdir\<close> flag exactly when the output directory is neither null nor the empty
  string; and the quoted path of the source file is the last element.
\<close>

theorem constructArgs_layout:
  "constructArgs env jobState =
     [''-interaction=nonstopmode'', ''-f'', ''-cd'', ''-file-line-error'']
     @ (if getShouldRebuild jobState then [''-g''] else [])
     @ (case getJobName jobState of
          None \<Rightarrow> []
        | Some n \<Rightarrow> if n = [] then [] else [''-jobname='' @ quoted n])
     @ (if getEnableShellEscape jobState then [''-shell-escape''] else [])
     @ (if getEnableSynctex jobState then [''-synctex=1''] else [])
     @ (if getEnableExtendedBuildMode jobState then [''-r '' @ quoted (latexmkrcPath env)] else [])
     @ engineArgs jobState
     @ (case getOutputDirectory jobState of
          None \<Rightarrow> []
        | Some d \<Rightarrow> if d = [] then [] else [''-outdir='' @ quoted d])
     @ [quoted (getTexFilePath jobState)]
   \<and> last (constructArgs env jobState) = quoted (getTexFilePath jobState)"
  by (simp add: constructArgs_split leadingArgs_def trailingArgs_def split del: if_split)

theorem constructArgs_layout_witness:
  "constructArgs failingEnv
     (gronkJob\<lparr>getShouldRebuild := True, getJobName := Some ''wibble'',
               getEnableExtendedBuildMode := True, getOutputDirectory := Some ''build''\<rparr>) =
     [''-interaction=nonstopmode'', ''-f'', ''-cd'', ''-file-line-error'', ''-g'',
      ''-jobname='' @ quoted ''wibble'', ''-synctex=1'',
      ''-r '' @ quoted ''/pkg/resources/latexmkrc'', ''-pdf'',
      ''-outdir='' @ quoted ''build'', quoted ''/angle/gronk.tex'']"
  using constructArgs_layout [of failingEnv
      "gronkJob\<lparr>getShouldRebuild := True, getJobName := Some ''wibble'',
                getEnableExtendedBuildMode := True, getOutputDirectory := Some ''build''\<rparr>"]
  by (simp add: gronkJob_def failingEnv_def engineArgs_def LATEX_PATTERN_pdflatex
      PDF_ENGINE_PATTERN_def)

text \<open>
  The job name may be the empty string, which is not null, and then no
  \<^verbatim>\<open>-jobname\<close> flag is passed.
\<close>

theorem constructArgs_empty_jobname_counterexample:
  "getJobName (gronkJob\<lparr>getJobName := Some []\<rparr>) \<noteq> None
   \<and> constructArgs failingEnv (gronkJob\<lparr>getJobName := Some []\<rparr>) =
       [''-interaction=nonstopmode'', ''-f'', ''-cd'', ''-file-line-error'', ''-synctex=1'',
        ''-pdf'', quoted ''/angle/gronk.tex'']
   \<and> \<not> (\<exists>a \<in> set (constructArgs failingEnv (gronkJob\<lparr>getJobName := Some []\<rparr>)).
          prefix ''-jobname'' a)"
proof -
  have e: "constructArgs failingEnv (gronkJob\<lparr>getJobName := Some []\<rparr>) =
       [''-interaction=nonstopmode'', ''-f'', ''-cd'', ''-file-line-error'', ''-synctex=1'',
        ''-pdf'', quoted ''/angle/gronk.tex'']"
    by (simp add: constructArgs_split leadingArgs_def trailingArgs_def engineArgs_def gronkJob_def
        LATEX_PATTERN_pdflatex PDF_ENGINE_PATTERN_def)
  show ?thesis
    unfolding e by (simp add: quoted_def)
qed

section \<open>Running the builder\<close>

text \<open>
  C4. For every job state \<^const>\<open>run\<close> returns: the process is executed, and the value
  returned is the exit code of the process as it is. When the exit code is zero nothing
  is logged; when it is not, what is logged is what \<^const>\<open>logStatusCode\<close> logs for the
  exit code and the error output, which is one entry.
\<close>

theorem run_returns_status:
  "\<exists>result. execLatexmk env (getProjectPath jobState) (constructArgs env jobState) = Inr result
     \<and> (statusCode result = 0 \<longrightarrow> run env jobState = Inr (0, []))
     \<and> (statusCode result \<noteq> 0 \<longrightarrow>
          run env jobState =
            Inr (statusCode result, logStatusCode (statusCode result) (stderr result))
          \<and> length (logStatusCode (statusCode result) (stderr result)) = 1)"
proof -
  obtain result where
    r: "execLatexmk env (getProjectPath jobState) (constructArgs env jobState) = Inr result"
    using execLatexmk_nonempty [OF constructArgs_nonempty] by blast
  have "length (logStatusCode (statusCode result) (stderr result)) = 1"
    by (simp add: logStatusCode_def)
  with r show ?thesis
    by (auto simp: run_def Let_def)
qed

theorem run_returns_status_witness:
  "run failingEnv gronkJob =
     Inr (12, [LogError ''latexmk: Failure in some part of making files.''])"
proof -
  have e: "execLatexmk failingEnv (getProjectPath gronkJob) (constructArgs failingEnv gronkJob) =
     Inr \<lparr> statusCode = 12,
           stdout = ''latexmk -interaction=nonstopmode -f -cd -file-line-error -synctex=1 -pdf ''
                    @ quoted ''gronk.tex'',
           stderr = ''no such file'' \<rparr>"
    unfolding gronk_args
    by (simp add: execLatexmk_def failingEnv_def gronkJob_def truthy_def slice_quoted executable_def)
  from run_returns_status [of failingEnv gronkJob] show ?thesis
    unfolding e by (auto simp: logStatusCode_def)
qed

section \<open>Exit codes\<close>

text \<open>
  C5. \<^const>\<open>logStatusCode\<close> logs one error for each of the exit codes 10, 11, 12, 13
  and 20: bad command line arguments, file not found, failure making files, error in
  the initialization file, probable bug or return code of a called program. Every
  other code, so every other nonzero code, is handed with the error output to the
  handler of the base class, and nothing else is logged.
\<close>

theorem logStatusCode_taxonomy:
  "logStatusCode 10 err = [LogError ''latexmk: Bad command line arguments.'']
   \<and> logStatusCode 11 err =
       [LogError ''latexmk: File specified on command line not found or other file not found.'']
   \<and> logStatusCode 12 err = [LogError ''latexmk: Failure in some part of making files.'']
   \<and> logStatusCode 13 err = [LogError ''latexmk: error in initialization file.'']
   \<and> logStatusCode 20 err =
       [LogError ''latexmk: probable bug or retcode from called program.'']
   \<and> (code \<notin> {10, 11, 12, 13, 20} \<longrightarrow>
        logStatusCode code err = [SuperLogStatusCode code err])"
  by (simp add: logStatusCode_def)

theorem logStatusCode_taxonomy_witness:
  "(1::int) \<notin> {10, 11, 12, 13, 20}
   \<and> logStatusCode 1 ''boom'' = [SuperLogStatusCode 1 ''boom'']
   \<and> logStatusCode 12 ''boom'' = [LogError ''latexmk: Failure in some part of making files.'']"
  using logStatusCode_taxonomy [of "''boom''" 1] by simp

section \<open>The runtime check\<close>

lemma stringLess_lexord:
  "stringLess xs ys \<longleftrightarrow> (xs, ys) \<in> lexord {(a, b). (of_char a :: nat) < of_char b}"
  by (induction xs ys rule: stringLess.induct) (auto simp: lexord_cons_cons)

lemma probe_version: "LATEXMK_VERSION_PATTERN ''Latexmk, John Collins. Version 4.100'' = Some ''4.100''"
  by (simp add: matchVersionHere_def toUpperAscii_def isSpace_def)

text \<open>
  C6. The version probe returns a result, and \<^const>\<open>checkRuntimeDependencies\<close> logs
  one entry, by four cases that exclude each other: an error when the exit code is not
  zero; a warning when it is zero and the output does not match the version pattern; a
  warning when it is zero and the version found is below \<^verbatim>\<open>4.37\<close>; an information
  otherwise. Below is the lexicographic order of strings and not an order of version
  numbers: \<^verbatim>\<open>4.100\<close> is below \<^verbatim>\<open>4.37\<close> and \<^verbatim>\<open>4.4\<close> is not.
\<close>

theorem checkRuntimeDependencies_outcomes:
  \<open>\<exists>result. execLatexmk env ''.'' [''-v''] = Inr result
     \<and> (statusCode result \<noteq> 0 \<longrightarrow>
          checkRuntimeDependencies env =
            Inr [LogError (''latexmk check failed with code '' @ stringOfInt (statusCode result)
                           @ '' and response of '' @ quoted (stderr result) @ ''.'')])
     \<and> (statusCode result = 0 \<and> LATEXMK_VERSION_PATTERN (stdout result) = None \<longrightarrow>
          checkRuntimeDependencies env =
            Inr [LogWarning (''latexmk check succeeded but with an unknown version response of ''
                             @ quoted (stdout result) @ ''.'')])
     \<and> (\<forall>version.
          statusCode result = 0 \<and> LATEXMK_VERSION_PATTERN (stdout result) = Some version
          \<and> stringLess version ''4.37'' \<longrightarrow>
          checkRuntimeDependencies env =
            Inr [LogWarning (''latexmk check succeeded but with a version of '' @ version
                             @ ''". Minimum version required is 4.37.'')])
     \<and> (\<forall>version.
          statusCode result = 0 \<and> LATEXMK_VERSION_PATTERN (stdout result) = Some version
          \<and> \<not> stringLess version ''4.37'' \<longrightarrow>
          checkRuntimeDependencies env =
            Inr [LogInfo (''latexmk check succeeded. Found version '' @ version @ ''.'')])
     \<and> (\<forall>v w. stringLess v w \<longleftrightarrow> (v, w) \<in> lexord {(a, b). (of_char a :: nat) < of_char b})
     \<and> stringLess ''4.100'' ''4.37'' \<and> \<not> stringLess ''4.4'' ''4.37''\<close>
proof -
  obtain result where r: "execLatexmk env ''.'' [''-v''] = Inr result"
    using execLatexmk_nonempty [of "[''-v'']" env "''.''"] by auto
  have lex: "\<forall>v w. stringLess v w \<longleftrightarrow> (v, w) \<in> lexord {(a, b). (of_char a :: nat) < of_char b}"
    using stringLess_lexord by blast
  have ex: "stringLess ''4.100'' ''4.37'' \<and> \<not> stringLess ''4.4'' ''4.37''"
    by simp
  from r have "(statusCode result \<noteq> 0 \<longrightarrow>
          checkRuntimeDependencies env =
            Inr [LogError (''latexmk check failed with code '' @ stringOfInt (statusCode result)
                           @ '' and response of '' @ quoted (stderr result) @ ''.'')])"
    by (simp add: checkRuntimeDependencies_def quoted_def)
  moreover from r have "(statusCode result = 0 \<and> LATEXMK_VERSION_PATTERN (stdout result) = None \<longrightarrow>
          checkRuntimeDependencies env =
            Inr [LogWarning (''latexmk check succeeded but with an unknown version response of ''
                             @ quoted (stdout result) @ ''.'')])"
    by (simp add: checkRuntimeDependencies_def quoted_def)
  moreover from r have "(\<forall>version.
          statusCode result = 0 \<and> LATEXMK_VERSION_PATTERN (stdout result) = Some version
          \<and> stringLess version ''4.37'' \<longrightarrow>
          checkRuntimeDependencies env =
            Inr [LogWarning (''latexmk check succeeded but with a version of '' @ version
                             @ [CHR 0x22] @ ''. Minimum version required is 4.37.'')])"
    by (simp add: checkRuntimeDependencies_def LATEXMK_MINIMUM_VERSION_def)
  moreover from r have "(\<forall>version.
          statusCode result = 0 \<and> LATEXMK_VERSION_PATTERN (stdout result) = Some version
          \<and> \<not> stringLess version ''4.37'' \<longrightarrow>
          checkRuntimeDependencies env =
            Inr [LogInfo (''latexmk check succeeded. Found version '' @ version @ ''.'')])"
    by (simp add: checkRuntimeDependencies_def LATEXMK_MINIMUM_VERSION_def)
  ultimately show ?thesis
    using r lex ex by (intro exI [of _ result]) simp
qed

theorem checkRuntimeDependencies_outcomes_witness:
  \<open>checkRuntimeDependencies probeEnv =
     Inr [LogWarning (''latexmk check succeeded but with a version of 4.100''
                      @ ''". Minimum version required is 4.37.'')]\<close>
proof -
  have e: "execLatexmk probeEnv ''.'' [''-v''] =
      Inr \<lparr> statusCode = 0, stdout = ''Latexmk, John Collins. Version 4.100'', stderr = [] \<rparr>"
    by (simp add: execLatexmk_def probeEnv_def)
  from checkRuntimeDependencies_outcomes [of probeEnv] obtain result where
    r: "execLatexmk probeEnv ''.'' [''-v''] = Inr result" and
    w: "\<forall>version.
          statusCode result = 0 \<and> LATEXMK_VERSION_PATTERN (stdout result) = Some version
          \<and> stringLess version ''4.37'' \<longrightarrow>
          checkRuntimeDependencies probeEnv =
            Inr [LogWarning (''latexmk check succeeded but with a version of '' @ version
                             @ [CHR 0x22] @ ''. Minimum version required is 4.37.'')]"
    by auto
  from r e have
    "result = \<lparr> statusCode = 0, stdout = ''Latexmk, John Collins. Version 4.100'', stderr = [] \<rparr>"
    by simp
  with w probe_version show ?thesis
    by simp
qed

section \<open>Relative paths\<close>

text \<open>
  C7. When relative paths are preferred and the options of the child process have a
  working directory, \<^const>\<open>execLatexmk\<close> on an argument list whose last element is a
  quoted path executes the command line in which that element is the quoted path
  relative to the working directory, and the other arguments are as they were. When
  relative paths are not preferred, the command line is made of the argument list as
  it is.
\<close>

theorem execLatexmk_relative_paths:
  "(useRelativePaths env \<and> truthy (cwd (constructChildProcessOptions env directoryPath)) \<longrightarrow>
      execLatexmk env directoryPath (args @ [quoted absPath]) =
        Inr (executeChildProcess env
              (executable @ '' '' @ joinSpace
                 (args @ [quoted (pathRelative env
                            (the (cwd (constructChildProcessOptions env directoryPath))) absPath)]))
              (constructChildProcessOptions env directoryPath)))
   \<and> (\<not> useRelativePaths env \<longrightarrow>
      execLatexmk env directoryPath args =
        Inr (executeChildProcess env (executable @ '' '' @ joinSpace args)
              (constructChildProcessOptions env directoryPath)))"
  by (simp add: execLatexmk_def Let_def slice_quoted)

theorem execLatexmk_relative_paths_witness:
  "useRelativePaths failingEnv
   \<and> truthy (cwd (constructChildProcessOptions failingEnv ''/angle''))
   \<and> execLatexmk failingEnv ''/angle'' ([''-f'', ''-pdf''] @ [quoted ''/angle/gronk.tex'']) =
       Inr \<lparr> statusCode = 12, stdout = ''latexmk -f -pdf '' @ quoted ''gronk.tex'',
             stderr = ''no such file'' \<rparr>
   \<and> execLatexmk probeEnv ''/angle'' [''-f'', ''-pdf'', quoted ''/angle/gronk.tex''] =
       Inr \<lparr> statusCode = 0, stdout = ''Latexmk, John Collins. Version 4.100'', stderr = [] \<rparr>"
proof -
  have h: "useRelativePaths failingEnv
      \<and> truthy (cwd (constructChildProcessOptions failingEnv ''/angle''))"
    by (simp add: failingEnv_def truthy_def)
  have n: "\<not> useRelativePaths probeEnv"
    by (simp add: probeEnv_def)
  from h n
    execLatexmk_relative_paths [of failingEnv "''/angle''" "[''-f'', ''-pdf'']" "''/angle/gronk.tex''"]
    execLatexmk_relative_paths [of probeEnv "''/angle''" "[''-f'', ''-pdf'', quoted ''/angle/gronk.tex'']"]
  show ?thesis
    by (simp add: failingEnv_def probeEnv_def executable_def)
qed

section \<open>Resolving the output file\<close>

text \<open>
  C8. When the job state has an output file path, \<^const>\<open>resolveOutputFilePath\<close>
  returns it, leaves the job state as it is and does not call the parser. Otherwise it
  calls the parser once; when the job state then has no path, the result is null, and
  nothing is thrown; when it has one and the result is to be moved out of an output
  directory, the result is the base name of that path joined with the directory of
  the source file; and when it has one and the result is not to be moved, the result
  is that path.
\<close>

theorem resolveOutputFilePath_cases:
  "(\<forall>outputFilePath. getOutputFilePath jobState = Some outputFilePath \<longrightarrow>
      resolveOutputFilePath path parse jobState = (Some outputFilePath, jobState, 0))
   \<and> (getOutputFilePath jobState = None \<longrightarrow>
        snd (snd (resolveOutputFilePath path parse jobState)) = 1)
   \<and> (getOutputFilePath jobState = None \<and> getOutputFilePath (parse jobState) = None \<longrightarrow>
        resolveOutputFilePath path parse jobState = (None, parse jobState, 1))
   \<and> (\<forall>outputFilePath.
        getOutputFilePath jobState = None
        \<and> getOutputFilePath (parse jobState) = Some outputFilePath
        \<and> shouldMoveResult (parse jobState) \<longrightarrow>
        fst (resolveOutputFilePath path parse jobState) =
          Some (pathJoin path (pathDirname path (getFilePath (parse jobState)))
                  (pathBasename path outputFilePath)))
   \<and> (\<forall>outputFilePath.
        getOutputFilePath jobState = None
        \<and> getOutputFilePath (parse jobState) = Some outputFilePath
        \<and> \<not> shouldMoveResult (parse jobState) \<longrightarrow>
        resolveOutputFilePath path parse jobState = (Some outputFilePath, parse jobState, 1))"
  by (simp add: resolveOutputFilePath_def Let_def split: option.splits)

theorem resolveOutputFilePath_cases_witness:
  "getOutputFilePath fooJob = None
   \<and> getOutputFilePath (fooParser fooJob) = Some ''bar/foo.pdf''
   \<and> shouldMoveResult (fooParser fooJob)
   \<and> fst (resolveOutputFilePath simplePath fooParser fooJob) = Some ''foo.pdf''
   \<and> resolveOutputFilePath simplePath fooParser (fooJob\<lparr>getOutputFilePath := Some ''foo.pdf''\<rparr>) =
       (Some ''foo.pdf'', fooJob\<lparr>getOutputFilePath := Some ''foo.pdf''\<rparr>, 0)
   \<and> resolveOutputFilePath simplePath (\<lambda>jobState. jobState) fooJob = (None, fooJob, 1)"
proof -
  have h: "getOutputFilePath fooJob = None
      \<and> getOutputFilePath (fooParser fooJob) = Some ''bar/foo.pdf''
      \<and> shouldMoveResult (fooParser fooJob)"
    by (simp add: fooJob_def fooParser_def shouldMoveResult_def truthy_def)
  have g: "getFilePath (fooParser fooJob) = ''foo.tex''"
    by (simp add: fooJob_def fooParser_def)
  have p: "pathJoin simplePath (pathDirname simplePath ''foo.tex'')
             (pathBasename simplePath ''bar/foo.pdf'') = ''foo.pdf''"
    by (simp add: simplePath_def)
  from h g p
    resolveOutputFilePath_cases [of fooJob simplePath fooParser]
    resolveOutputFilePath_cases [of "fooJob\<lparr>getOutputFilePath := Some ''foo.pdf''\<rparr>" simplePath fooParser]
    resolveOutputFilePath_cases [of fooJob simplePath "\<lambda>jobState. jobState"]
  show ?thesis
    by simp
qed

section \<open>The PDF producer\<close>

text \<open>
  C9. \<^const>\<open>constructPdfProducerArgs\<close> has three cases on the producer: \<^verbatim>\<open>ps2pdf\<close>
  gives the flag \<^verbatim>\<open>-pdfps\<close>; \<^verbatim>\<open>dvipdf\<close> gives \<^verbatim>\<open>-pdfdvi\<close> with the fixed command
  \<^verbatim>\<open>dvipdf %O %S %D\<close> for \<^verbatim>\<open>$dvipdf\<close>; any other producer gives \<^verbatim>\<open>-pdfdvi\<close> with
  the command made of the producer's name and \<^verbatim>\<open>%O -o %D %S\<close>.
\<close>

theorem constructPdfProducerArgs_cases:
  \<open>(getProducer jobState = ''ps2pdf'' \<longrightarrow> constructPdfProducerArgs jobState = ''-pdfps'')
   \<and> (getProducer jobState = ''dvipdf'' \<longrightarrow>
        constructPdfProducerArgs jobState = ''-pdfdvi -e "$dvipdf = 'dvipdf %O %S %D';"'')
   \<and> (getProducer jobState \<noteq> ''ps2pdf'' \<and> getProducer jobState \<noteq> ''dvipdf'' \<longrightarrow>
        constructPdfProducerArgs jobState =
          ''-pdfdvi -e "$dvipdf = '' @ [CHR 0x27] @ getProducer jobState @ '' %O -o %D %S';"'')\<close>
  by (simp add: constructPdfProducerArgs_def)

theorem constructPdfProducerArgs_cases_witness:
  \<open>getProducer gronkJob \<noteq> ''ps2pdf'' \<and> getProducer gronkJob \<noteq> ''dvipdf''
   \<and> constructPdfProducerArgs gronkJob = ''-pdfdvi -e "$dvipdf = 'dvipdfmx %O -o %D %S';"''
   \<and> constructPdfProducerArgs (gronkJob\<lparr>getProducer := ''ps2pdf''\<rparr>) = ''-pdfps''
   \<and> constructPdfProducerArgs (gronkJob\<lparr>getProducer := ''dvipdf''\<rparr>) =
       ''-pdfdvi -e "$dvipdf = 'dvipdf %O %S %D';"''\<close>
  using constructPdfProducerArgs_cases [of gronkJob]
    constructPdfProducerArgs_cases [of "gronkJob\<lparr>getProducer := ''ps2pdf''\<rparr>"]
    constructPdfProducerArgs_cases [of "gronkJob\<lparr>getProducer := ''dvipdf''\<rparr>"]
  by (simp add: gronkJob_def)

section \<open>Builds on save\<close>

text \<open>
  C10. The save handler makes a call only when the saved editor is the active one and
  building on save is configured; the call is then \<^verbatim>\<open>latex.composer.build(false, false)\<close>,
  for which the opener is not invoked whatever the jobs produced. The command
  \<^verbatim>\<open>latex:build\<close> calls \<^verbatim>\<open>latex.composer.build(false)\<close>, for which the opener is
  invoked on every output of a job that ran with success.
\<close>

theorem save_build_never_opens:
  "(\<forall>call \<in> set (onDidSave editor activeEditor buildOnSave).
      call = ComposerBuild False (Some False) \<and> openerCalls call outputs = [])
   \<and> (onDidSave editor activeEditor buildOnSave \<noteq> [] \<longleftrightarrow>
        activeEditor = Some editor \<and> buildOnSave)
   \<and> commands ''latex:build'' = [ComposerBuild False None]
   \<and> (\<forall>call \<in> set (commands ''latex:build''). openerCalls call outputs = outputs)"
  by (auto simp: onDidSave_def commands_def openerCalls_def shouldOpenResult_def)

theorem save_build_never_opens_witness:
  "onDidSave 1 (Some 1) True = [ComposerBuild False (Some False)]
   \<and> openerCalls (ComposerBuild False (Some False)) [''/angle/gronk.pdf''] = []
   \<and> onDidSave 1 (Some 2) True = []
   \<and> onDidSave 1 (Some 1) False = []
   \<and> openerCalls (ComposerBuild False None) [''/angle/gronk.pdf''] = [''/angle/gronk.pdf'']"
  using save_build_never_opens [of 1 "Some 1" True "[''/angle/gronk.pdf'']"]
    save_build_never_opens [of 1 "Some 2" True "[''/angle/gronk.pdf'']"]
    save_build_never_opens [of 1 "Some 1" False "[''/angle/gronk.pdf'']"]
  by (simp add: onDidSave_def)

end
